theory Spec2Isabelle
  imports Main
begin

section \<open>Python values and strings\<close>

text \<open>
  The dialect module \<^verbatim>\<open>lib/sqlalchemy/dialects/firebird/base.py\<close> works on Python 2
  values. Strings are byte strings, modelled as \<^typ>\<open>string\<close>; the absence value
  \<^verbatim>\<open>None\<close> of a name is \<^term>\<open>None :: string option\<close>. The case mappings
  \<^verbatim>\<open>str.upper\<close> and \<^verbatim>\<open>str.lower\<close> act on the ASCII letters only, and
  \<^verbatim>\<open>str.rstrip()\<close> removes trailing ASCII white space.
\<close>

definition is_upper_char :: "char \<Rightarrow> bool" where
  "is_upper_char c = (65 \<le> (of_char c :: nat) \<and> (of_char c :: nat) \<le> 90)"

definition is_lower_char :: "char \<Rightarrow> bool" where
  "is_lower_char c = (97 \<le> (of_char c :: nat) \<and> (of_char c :: nat) \<le> 122)"

definition is_digit_char :: "char \<Rightarrow> bool" where
  "is_digit_char c = (48 \<le> (of_char c :: nat) \<and> (of_char c :: nat) \<le> 57)"

definition is_space_char :: "char \<Rightarrow> bool" where
  "is_space_char c = ((of_char c :: nat) = 32 \<or> (9 \<le> (of_char c :: nat) \<and> (of_char c :: nat) \<le> 13))"

definition lower_char :: "char \<Rightarrow> char" where
  "lower_char c = (if is_upper_char c then char_of ((of_char c :: nat) + 32) else c)"

definition upper_char :: "char \<Rightarrow> char" where
  "upper_char c = (if is_lower_char c then char_of ((of_char c :: nat) - 32) else c)"

definition lower :: "string \<Rightarrow> string" where
  "lower s = map lower_char s"

definition upper :: "string \<Rightarrow> string" where
  "upper s = map upper_char s"

definition rstrip :: "string \<Rightarrow> string" where
  "rstrip s = rev (dropWhile is_space_char (rev s))"

definition startswith :: "string \<Rightarrow> string \<Rightarrow> bool" where
  "startswith s p = (take (length p) s = p)"

text \<open>\<^verbatim>\<open>sep.join(xs)\<close>.\<close>

fun join :: "string \<Rightarrow> string list \<Rightarrow> string" where
  "join sep [] = []"
| "join sep [x] = x"
| "join sep (x # y # ys) = x @ sep @ join sep (y # ys)"

text \<open>\<^verbatim>\<open>"%d" % i\<close> for an integer \<open>i\<close>: its decimal digits, with a minus sign when negative.\<close>

definition digit_char :: "nat \<Rightarrow> char" where
  "digit_char d = char_of (48 + d)"

fun digits :: "nat \<Rightarrow> string" where
  "digits n = (if n < 10 then [digit_char n] else digits (n div 10) @ [digit_char (n mod 10)])"

declare digits.simps [simp del]

definition format_d :: "int \<Rightarrow> string" where
  "format_d i = (if i < 0 then CHR ''-'' # digits (nat (- i)) else digits (nat i))"

text \<open>
  The Python values that reach the boolean type's processors. Truth follows Python:
  \<^verbatim>\<open>None\<close>, \<^verbatim>\<open>False\<close>, \<^verbatim>\<open>0\<close> and the empty string are false. The test
  \<^verbatim>\<open>value is True\<close> is identity with the singleton \<^verbatim>\<open>True\<close>, which the integer
  \<^verbatim>\<open>1\<close> is not.
\<close>

datatype py_value = PyNone | PyBool bool | PyInt int | PyStr string

fun truthy :: "py_value \<Rightarrow> bool" where
  "truthy PyNone = False"
| "truthy (PyBool b) = b"
| "truthy (PyInt i) = (i \<noteq> 0)"
| "truthy (PyStr s) = (s \<noteq> [])"

definition py_and :: "py_value \<Rightarrow> py_value \<Rightarrow> py_value" where
  "py_and a b = (if truthy a then b else a)"

definition py_or :: "py_value \<Rightarrow> py_value \<Rightarrow> py_value" where
  "py_or a b = (if truthy a then a else b)"

section \<open>The boolean type: \<^verbatim>\<open>_FBBoolean\<close>\<close>

definition result_process :: "py_value \<Rightarrow> py_value" where
  "result_process v =
     (if v = PyNone then PyNone
      else py_or (py_and v (PyBool True)) (PyBool False))"

definition bind_process :: "py_value \<Rightarrow> py_value" where
  "bind_process v =
     (if v = PyBool True then PyInt 1
      else if v = PyBool False then PyInt 0
      else if v = PyNone then PyNone
      else py_or (py_and v (PyBool True)) (PyBool False))"

section \<open>The statement compiler: \<^verbatim>\<open>FBCompiler\<close>\<close>

text \<open>
  The fields \<^verbatim>\<open>_limit\<close>, \<^verbatim>\<open>_offset\<close> and \<^verbatim>\<open>_distinct\<close> of a
  \<^verbatim>\<open>select\<close>, which \<^verbatim>\<open>get_select_precolumns\<close> reads. A limit or
  offset that is \<^verbatim>\<open>None\<close> or \<^verbatim>\<open>0\<close> is false in the tests
  \<^verbatim>\<open>if select._limit\<close> and \<^verbatim>\<open>if select._offset\<close>.
\<close>

record select =
  sel_limit :: "int option"
  sel_offset :: "int option"
  sel_distinct :: bool

definition int_truthy :: "int option \<Rightarrow> bool" where
  "int_truthy v = (case v of None \<Rightarrow> False | Some i \<Rightarrow> i \<noteq> 0)"

definition get_select_precolumns :: "select \<Rightarrow> string" where
  "get_select_precolumns sel =
     (let result = [];
          result = (if int_truthy (sel_limit sel)
                    then result @ ''FIRST '' @ format_d (the (sel_limit sel)) @ '' ''
                    else result);
          result = (if int_truthy (sel_offset sel)
                    then result @ ''SKIP '' @ format_d (the (sel_offset sel)) @ '' ''
                    else result);
          result = (if sel_distinct sel then result @ ''DISTINCT '' else result)
      in result)"

definition limit_clause :: "select \<Rightarrow> string" where
  "limit_clause sel = []"


text \<open>
  \<^verbatim>\<open>_append_returning\<close> and the three statement visitors. The text of the base
  statement (\<^verbatim>\<open>super().visit_update\<close> and its siblings) and the compilation of one
  expression (\<^verbatim>\<open>self.process(c, within_columns_clause=True)\<close>) belong to the generic
  compiler; they are the parameters \<open>base\<close> and \<open>process\<close>. An entry of the
  \<^verbatim>\<open>firebird_returning\<close> list is either a \<^verbatim>\<open>Selectable\<close>, which stands for its
  columns, or any other expression. \<^verbatim>\<open>stmt.kwargs\<close> holds the list under the key
  \<^verbatim>\<open>"firebird_returning"\<close>, or has no such key.
\<close>

datatype 'e returning_item = Selectable (columns: "'e list") | Expression 'e

record ('s, 'e) statement =
  element :: 's
  firebird_returning :: "'e returning_item list option"

fun flatten_columnlist :: "'e returning_item list \<Rightarrow> 'e list" where
  "flatten_columnlist [] = []"
| "flatten_columnlist (Selectable cs # collist) = cs @ flatten_columnlist collist"
| "flatten_columnlist (Expression c # collist) = c # flatten_columnlist collist"

definition append_returning :: "('e \<Rightarrow> string) \<Rightarrow> string \<Rightarrow> ('s, 'e) statement \<Rightarrow> string" where
  "append_returning process text stmt =
     (let returning_cols = the (firebird_returning stmt);
          columns = map process (flatten_columnlist returning_cols)
      in text @ '' RETURNING '' @ join '', '' columns)"

definition visit_update ::
  "(('s, 'e) statement \<Rightarrow> string) \<Rightarrow> ('e \<Rightarrow> string) \<Rightarrow> ('s, 'e) statement \<Rightarrow> string" where
  "visit_update base process update_stmt =
     (let text = base update_stmt
      in if firebird_returning update_stmt \<noteq> None
         then append_returning process text update_stmt
         else text)"

definition visit_insert ::
  "(('s, 'e) statement \<Rightarrow> string) \<Rightarrow> ('e \<Rightarrow> string) \<Rightarrow> ('s, 'e) statement \<Rightarrow> string" where
  "visit_insert base process insert_stmt =
     (let text = base insert_stmt
      in if firebird_returning insert_stmt \<noteq> None
         then append_returning process text insert_stmt
         else text)"

definition visit_delete ::
  "(('s, 'e) statement \<Rightarrow> string) \<Rightarrow> ('e \<Rightarrow> string) \<Rightarrow> ('s, 'e) statement \<Rightarrow> string" where
  "visit_delete base process delete_stmt =
     (let text = base delete_stmt
      in if firebird_returning delete_stmt \<noteq> None
         then append_returning process text delete_stmt
         else text)"

section \<open>The dialect: \<^verbatim>\<open>FBDialect\<close>\<close>

subsection \<open>Reserved words and the type-name table\<close>

definition RESERVED_WORDS :: "string list" where
  "RESERVED_WORDS = [
    ''action'', ''active'', ''add'', ''admin'', ''after'', ''all'', ''alter'', ''and'',
    ''any'', ''as'', ''asc'', ''ascending'', ''at'', ''auto'', ''autoddl'', ''avg'',
    ''based'', ''basename'', ''base_name'', ''before'', ''begin'', ''between'', ''bigint'',
    ''blob'', ''blobedit'', ''buffer'', ''by'', ''cache'', ''cascade'', ''case'', ''cast'',
    ''char'', ''character'', ''character_length'', ''char_length'', ''check'',
    ''check_point_len'', ''check_point_length'', ''close'', ''collate'', ''collation'',
    ''column'', ''commit'', ''committed'', ''compiletime'', ''computed'', ''conditional'',
    ''connect'', ''constraint'', ''containing'', ''continue'', ''count'', ''create'',
    ''cstring'', ''current'', ''current_connection'', ''current_date'', ''current_role'',
    ''current_time'', ''current_timestamp'', ''current_transaction'', ''current_user'',
    ''cursor'', ''database'', ''date'', ''day'', ''db_key'', ''debug'', ''dec'',
    ''decimal'', ''declare'', ''default'', ''delete'', ''desc'', ''descending'',
    ''describe'', ''descriptor'', ''disconnect'', ''display'', ''distinct'', ''do'',
    ''domain'', ''double'', ''drop'', ''echo'', ''edit'', ''else'', ''end'',
    ''entry_point'', ''escape'', ''event'', ''exception'', ''execute'', ''exists'',
    ''exit'', ''extern'', ''external'', ''extract'', ''fetch'', ''file'', ''filter'',
    ''float'', ''for'', ''foreign'', ''found'', ''free_it'', ''from'', ''full'',
    ''function'', ''gdscode'', ''generator'', ''gen_id'', ''global'', ''goto'', ''grant'',
    ''group'', ''group_commit_'', ''group_commit_wait'', ''having'', ''help'', ''hour'',
    ''if'', ''immediate'', ''in'', ''inactive'', ''index'', ''indicator'', ''init'',
    ''inner'', ''input'', ''input_type'', ''insert'', ''int'', ''integer'', ''into'',
    ''is'', ''isolation'', ''isql'', ''join'', ''key'', ''lc_messages'', ''lc_type'',
    ''left'', ''length'', ''lev'', ''level'', ''like'', ''logfile'', ''log_buffer_size'',
    ''log_buf_size'', ''long'', ''manual'', ''max'', ''maximum'', ''maximum_segment'',
    ''max_segment'', ''merge'', ''message'', ''min'', ''minimum'', ''minute'',
    ''module_name'', ''month'', ''names'', ''national'', ''natural'', ''nchar'', ''no'',
    ''noauto'', ''not'', ''null'', ''numeric'', ''num_log_buffers'', ''num_log_bufs'',
    ''octet_length'', ''of'', ''on'', ''only'', ''open'', ''option'', ''or'', ''order'',
    ''outer'', ''output'', ''output_type'', ''overflow'', ''page'', ''pagelength'',
    ''pages'', ''page_size'', ''parameter'', ''password'', ''plan'', ''position'',
    ''post_event'', ''precision'', ''prepare'', ''primary'', ''privileges'', ''procedure'',
    ''protected'', ''public'', ''quit'', ''raw_partitions'', ''rdb$db_key'', ''read'',
    ''real'', ''record_version'', ''recreate'', ''references'', ''release'', ''release'',
    ''reserv'', ''reserving'', ''restrict'', ''retain'', ''return'', ''returning_values'',
    ''returns'', ''revoke'', ''right'', ''role'', ''rollback'', ''row_count'', ''runtime'',
    ''savepoint'', ''schema'', ''second'', ''segment'', ''select'', ''set'', ''shadow'',
    ''shared'', ''shell'', ''show'', ''singular'', ''size'', ''smallint'', ''snapshot'',
    ''some'', ''sort'', ''sqlcode'', ''sqlerror'', ''sqlwarning'', ''stability'',
    ''starting'', ''starts'', ''statement'', ''static'', ''statistics'', ''sub_type'',
    ''sum'', ''suspend'', ''table'', ''terminator'', ''then'', ''time'', ''timestamp'',
    ''to'', ''transaction'', ''translate'', ''translation'', ''trigger'', ''trim'',
    ''type'', ''uncommitted'', ''union'', ''unique'', ''update'', ''upper'', ''user'',
    ''using'', ''value'', ''values'', ''varchar'', ''variable'', ''varying'', ''version'',
    ''view'', ''wait'', ''wait_time'', ''weekday'', ''when'', ''whenever'', ''where'',
    ''while'', ''with'', ''work'', ''write'', ''year'', ''yearday'']"

datatype sqltype =
  SMALLINT | BIGINT | FLOAT | DATE | TIME | TEXT | NUMERIC | TIMESTAMP | VARCHAR | CHAR_type | BLOB

datatype generic_type = Boolean | DateTime

datatype type_impl = FBBoolean | Impl sqltype

definition colspecs_global :: "generic_type \<rightharpoonup> type_impl" where
  "colspecs_global = [Boolean \<mapsto> FBBoolean]"

definition ischema_names_global :: "string \<rightharpoonup> sqltype" where
  "ischema_names_global = map_of [
     (''SHORT'', SMALLINT),
     (''LONG'', BIGINT),
     (''QUAD'', FLOAT),
     (''FLOAT'', FLOAT),
     (''DATE'', DATE),
     (''TIME'', TIME),
     (''TEXT'', TEXT),
     (''INT64'', NUMERIC),
     (''DOUBLE'', FLOAT),
     (''TIMESTAMP'', TIMESTAMP),
     (''VARYING'', VARCHAR),
     (''CSTRING'', CHAR_type),
     (''BLOB'', BLOB)]"

subsection \<open>Initialisation\<close>

text \<open>
  The attributes of a dialect object that \<^verbatim>\<open>initialize\<close> writes. A new object reads
  the class attributes: \<^verbatim>\<open>_version_two = True\<close> and the two module-level tables.
  \<^verbatim>\<open>super().initialize(connection)\<close> stores the version tuple that the connection
  reports; the tuple is the second argument here. Tuples compare as in Python, item
  by item, a proper prefix being the smaller.
\<close>

record FBDialect =
  server_version_info :: "int list"
  version_two :: bool
  ischema_names :: "string \<rightharpoonup> sqltype"
  colspecs :: "generic_type \<rightharpoonup> type_impl"

fun tuple_gt :: "int list \<Rightarrow> int list \<Rightarrow> bool" where
  "tuple_gt [] ys = False"
| "tuple_gt (x # xs) [] = True"
| "tuple_gt (x # xs) (y # ys) = (if x = y then tuple_gt xs ys else x > y)"

definition initialize :: "FBDialect \<Rightarrow> int list \<Rightarrow> FBDialect" where
  "initialize self connection_version =
     (let self = self\<lparr>server_version_info := connection_version\<rparr>;
          self = self\<lparr>version_two := tuple_gt (server_version_info self) [2]\<rparr>
      in if \<not> version_two self
         then self\<lparr>ischema_names := ischema_names_global(''TIMESTAMP'' \<mapsto> DATE),
                   colspecs := [DateTime \<mapsto> Impl DATE]\<rparr>
         else self)"

subsection \<open>Identifier names\<close>

text \<open>
  Modelled from the spec: \<^verbatim>\<open>IdentifierPreparer._requires_quotes\<close>, which
  \<^verbatim>\<open>FBIdentifierPreparer\<close> inherits from \<^verbatim>\<open>sqlalchemy/sql/compiler.py\<close>, a file that
  is not among the sources. The specification says: ``Requires quoting is decided by
  membership in the reserved-word set or by failing an identifier-syntax check
  (non-alphanumeric/underscore content, leading digit, etc.)'', the reserved words being
  ``case-insensitive keyword strings''.
\<close>

definition legal_character :: "char \<Rightarrow> bool" where
  "legal_character c = (is_upper_char c \<or> is_lower_char c \<or> is_digit_char c \<or> c = CHR ''_'')"

definition legal_identifier :: "string \<Rightarrow> bool" where
  "legal_identifier v =
     (list_all legal_character v \<and> (case v of [] \<Rightarrow> True | c # _ \<Rightarrow> \<not> is_digit_char c))"

definition requires_quotes :: "string \<Rightarrow> bool" where
  "requires_quotes v = (lower v \<in> set RESERVED_WORDS \<or> \<not> legal_identifier v)"

text \<open>
  \<^verbatim>\<open>normalize_name\<close> and \<^verbatim>\<open>denormalize_name\<close>. The first argument \<open>rq\<close> is
  \<^verbatim>\<open>self.identifier_preparer._requires_quotes\<close>, the quoting test of the preparer
  that the dialect object holds. In \<^verbatim>\<open>name and name.rstrip()\<close> a name that is
  \<^verbatim>\<open>None\<close> or empty is false and stays as it is.
\<close>

definition normalize_name :: "(string \<Rightarrow> bool) \<Rightarrow> string option \<Rightarrow> string option" where
  "normalize_name rq name =
     (let name = (case name of None \<Rightarrow> None
                  | Some s \<Rightarrow> if s = [] then Some s else Some (rstrip s))
      in case name of
           None \<Rightarrow> None
         | Some s \<Rightarrow>
             if upper s = s \<and> \<not> rq (lower s) then Some (lower s) else Some s)"

definition denormalize_name :: "(string \<Rightarrow> bool) \<Rightarrow> string option \<Rightarrow> string option" where
  "denormalize_name rq name =
     (case name of
        None \<Rightarrow> None
      | Some s \<Rightarrow>
          if lower s = s \<and> \<not> rq (lower s) then Some (upper s) else Some s)"


section \<open>Theorems\<close>

subsection \<open>The boolean type\<close>

lemma and_True_or_False: "py_or (py_and v (PyBool True)) (PyBool False) = PyBool (truthy v)"
  by (simp add: py_or_def py_and_def)

text \<open>
  C4. The boolean type's bind processor maps \<^verbatim>\<open>True\<close> to \<^verbatim>\<open>1\<close>, \<^verbatim>\<open>False\<close> to
  \<^verbatim>\<open>0\<close> and \<^verbatim>\<open>None\<close> to \<^verbatim>\<open>None\<close>; its result processor maps every truthy
  value to \<^verbatim>\<open>True\<close>, every falsy value other than \<^verbatim>\<open>None\<close> to \<^verbatim>\<open>False\<close>, and
  \<^verbatim>\<open>None\<close> to \<^verbatim>\<open>None\<close>. So \<^verbatim>\<open>1\<close>, \<^verbatim>\<open>0\<close> and \<^verbatim>\<open>None\<close> read back as
  \<^verbatim>\<open>True\<close>, \<^verbatim>\<open>False\<close> and \<^verbatim>\<open>None\<close>, and each of the three values written and
  read back is itself again.
\<close>

theorem FBBoolean_processors:
  "bind_process (PyBool True) = PyInt 1 \<and>
   bind_process (PyBool False) = PyInt 0 \<and>
   bind_process PyNone = PyNone \<and>
   (\<forall>v. truthy v \<longrightarrow> result_process v = PyBool True) \<and>
   (\<forall>v. \<not> truthy v \<and> v \<noteq> PyNone \<longrightarrow> result_process v = PyBool False) \<and>
   result_process PyNone = PyNone \<and>
   result_process (PyInt 1) = PyBool True \<and>
   result_process (PyInt 0) = PyBool False \<and>
   (\<forall>b \<in> {PyBool True, PyBool False, PyNone}. result_process (bind_process b) = b)"
  by (auto simp add: bind_process_def result_process_def and_True_or_False)

theorem FBBoolean_processors_witness:
  "truthy (PyStr ''t'') \<and> result_process (PyStr ''t'') = PyBool True \<and>
   \<not> truthy (PyStr []) \<and> PyStr [] \<noteq> PyNone \<and> result_process (PyStr []) = PyBool False \<and>
   PyBool True \<in> {PyBool True, PyBool False, PyNone} \<and>
   result_process (bind_process (PyBool True)) = PyBool True"
proof -
  have t: "truthy (PyStr ''t'')" by simp
  have f: "\<not> truthy (PyStr []) \<and> PyStr [] \<noteq> PyNone" by simp
  have m: "PyBool True \<in> {PyBool True, PyBool False, PyNone}" by simp
  from FBBoolean_processors have "result_process (PyStr ''t'') = PyBool True"
    using t by blast
  moreover from FBBoolean_processors have "result_process (PyStr []) = PyBool False"
    using f by blast
  moreover from FBBoolean_processors
  have "result_process (bind_process (PyBool True)) = PyBool True"
    using m by blast
  ultimately show ?thesis using t f m by blast
qed

subsection \<open>Row limits before the column list\<close>

lemma format_d_5: "format_d 5 = ''5''"
  by code_simp

lemma format_d_10: "format_d 10 = ''10''"
  by code_simp

lemma precolumns_5_10_distinct:
  "get_select_precolumns \<lparr>sel_limit = Some 5, sel_offset = Some 10, sel_distinct = True\<rparr>
     = ''FIRST 5 SKIP 10 DISTINCT ''"
  by (simp add: get_select_precolumns_def int_truthy_def format_d_5 format_d_10)

text \<open>
  C3, as the specification states it: for a select with limit 5, offset 10 and distinct
  set, the fragment would be \<^verbatim>\<open>DISTINCT FIRST 5 SKIP 10 \<close>. The function appends
  \<^verbatim>\<open>DISTINCT \<close> last, so the fragment differs.
\<close>

theorem precolumns_distinct_first_counterexample:
  "get_select_precolumns \<lparr>sel_limit = Some 5, sel_offset = Some 10, sel_distinct = True\<rparr>
     \<noteq> ''DISTINCT FIRST 5 SKIP 10 ''"
  by (simp add: precolumns_5_10_distinct)

text \<open>
  C3, amended: for a select with limit 5, offset 10 and distinct set, the fragment that
  \<^verbatim>\<open>get_select_precolumns\<close> produces is exactly \<^verbatim>\<open>FIRST 5 SKIP 10 DISTINCT \<close>, and
  \<^verbatim>\<open>limit_clause\<close> returns the empty string for every select.
\<close>

theorem precolumns_first_skip_distinct:
  "get_select_precolumns \<lparr>sel_limit = Some 5, sel_offset = Some 10, sel_distinct = True\<rparr>
     = ''FIRST 5 SKIP 10 DISTINCT '' \<and>
   (\<forall>sel. limit_clause sel = [])"
  by (simp add: precolumns_5_10_distinct limit_clause_def)

subsection \<open>Server version\<close>

text \<open>
  C5. After \<^verbatim>\<open>initialize\<close> with a server version whose major component is 1,
  \<^verbatim>\<open>_version_two\<close> is false and the type-name table maps \<^verbatim>\<open>TIMESTAMP\<close> to the
  date-only type, its other entries being those of the module's table; after
  \<^verbatim>\<open>initialize\<close> with major component 3, \<^verbatim>\<open>_version_two\<close> is true and the dialect's
  type-name table is the one it had.
\<close>

theorem initialize_version:
  "version_two (initialize self (1 # rest)) = False \<and>
   ischema_names (initialize self (1 # rest)) ''TIMESTAMP'' = Some DATE \<and>
   ischema_names (initialize self (1 # rest)) = ischema_names_global(''TIMESTAMP'' \<mapsto> DATE) \<and>
   version_two (initialize self (3 # rest)) = True \<and>
   ischema_names (initialize self (3 # rest)) = ischema_names self"
  by (simp add: initialize_def)

theorem initialize_version_witness:
  "\<not> version_two (initialize
       \<lparr>server_version_info = [], version_two = True,
        ischema_names = ischema_names_global, colspecs = colspecs_global\<rparr> [1, 5, 0]) \<and>
   ischema_names_global ''TIMESTAMP'' = Some TIMESTAMP \<and>
   ischema_names (initialize
       \<lparr>server_version_info = [], version_two = True,
        ischema_names = ischema_names_global, colspecs = colspecs_global\<rparr> [1, 5, 0])
     ''TIMESTAMP'' = Some DATE \<and>
   version_two (initialize
       \<lparr>server_version_info = [], version_two = True,
        ischema_names = ischema_names_global, colspecs = colspecs_global\<rparr> [3, 5, 0]) \<and>
   ischema_names (initialize
       \<lparr>server_version_info = [], version_two = True,
        ischema_names = ischema_names_global, colspecs = colspecs_global\<rparr> [3, 5, 0])
     ''TIMESTAMP'' = Some TIMESTAMP"
  using initialize_version
    [of "\<lparr>server_version_info = [], version_two = True,
          ischema_names = ischema_names_global, colspecs = colspecs_global\<rparr>" "[5, 0]"]
  by (simp add: ischema_names_global_def)

subsection \<open>The RETURNING clause\<close>

lemma flatten_columnlist_concat:
  "flatten_columnlist collist =
     concat (map (\<lambda>c. case c of Selectable cs \<Rightarrow> cs | Expression e \<Rightarrow> [e]) collist)"
  by (induction collist rule: flatten_columnlist.induct) simp_all

text \<open>
  C6. For an INSERT, UPDATE or DELETE statement that carries a returning list, the
  compiled text is the text of the base statement, then \<^verbatim>\<open> RETURNING \<close>, then the
  processed expressions separated by \<^verbatim>\<open>, \<close>, where an entry that is a selectable
  stands for its columns; a statement without the list compiles to the base text.
\<close>

theorem visit_returning:
  "(\<forall>collist. firebird_returning stmt = Some collist \<longrightarrow>
      (\<forall>visit \<in> {visit_update, visit_insert, visit_delete}.
         visit base process stmt =
           base stmt @ '' RETURNING '' @
           join '', '' (map process
             (concat (map (\<lambda>c. case c of Selectable cs \<Rightarrow> cs | Expression e \<Rightarrow> [e]) collist))))) \<and>
   (firebird_returning stmt = None \<longrightarrow>
      (\<forall>visit \<in> {visit_update, visit_insert, visit_delete}. visit base process stmt = base stmt))"
  by (auto simp add: visit_update_def visit_insert_def visit_delete_def append_returning_def
        flatten_columnlist_concat)

end
